theory Spec2Isabelle
  imports Main "HOL-Library.Word"
begin

section \<open>The coordination server of dc\_federated (dcf\_server.py)\<close>

text \<open>
  The module \<^verbatim>\<open>dc_federated/backend/dcf_server.py\<close> defines the class
  \<^verbatim>\<open>DCFServer\<close> (the worker registry, the relay of updates and models, the
  admin operations) and the class \<^verbatim>\<open>WorkerAuthenticator\<close>. Each method is
  translated into a function that takes the server object and returns the value
  the method returns, or the exception it raises, together with the server object
  afterwards.
\<close>

subsection \<open>Values\<close>

type_synonym bytes = "8 word list"

text \<open>
  The parsed body of a request (\<^verbatim>\<open>request.json\<close>) is \<^verbatim>\<open>None\<close> when the
  request carries no JSON, and a dictionary from field names to JSON values otherwise.
  Numbers are integers here; a body that parses to something else than a dictionary
  is outside this model.
\<close>

datatype json =
    JNull
  | JBool bool
  | JNum int
  | JStr string
  | JArray "json list"
  | JObject "(string \<times> json) list"

type_synonym json_obj = "string \<rightharpoonup> json"

text \<open>
  \<^verbatim>\<open>v == True\<close>: Python's \<^verbatim>\<open>True\<close> equals the boolean \<^verbatim>\<open>True\<close> and the
  number 1, and nothing else among these values.
\<close>

fun eq_True :: "json \<Rightarrow> bool" where
  "eq_True (JBool b) = b"
| "eq_True (JNum n) = (n = 1)"
| "eq_True v = False"

text \<open>
  Lists and dictionaries are unhashable: a membership test in a \<^verbatim>\<open>dict\<close> or a
  \<^verbatim>\<open>set\<close> raises \<^verbatim>\<open>TypeError\<close> on them.
\<close>

fun hashable :: "json \<Rightarrow> bool" where
  "hashable (JArray xs) = False"
| "hashable (JObject kvs) = False"
| "hashable v = True"

text \<open>
  Exceptions. \<open>Error name\<close> stands for an exception of any other class (such as
  \<^verbatim>\<open>zlib.error\<close> or \<^verbatim>\<open>binascii.Error\<close>), all of them subclasses of
  \<^verbatim>\<open>Exception\<close>.
\<close>

datatype exn =
    BadSignatureError
  | KeyError string
  | TypeError
  | AttributeError
  | Error string

subsection \<open>The admin gate\<close>

text \<open>
  \<^verbatim>\<open>DCFServer.is_admin\<close>. The process environment \<^verbatim>\<open>os.environ\<close> is a
  dictionary from names to strings.
\<close>

definition is_admin :: "(string \<rightharpoonup> string) \<Rightarrow> string \<Rightarrow> string \<Rightarrow> bool" where
  "is_admin environ username password =
     (let adm_username = environ ''ADMIN_USERNAME'';
          adm_password = environ ''ADMIN_PASSWORD''
      in if adm_username = None \<or> adm_password = None then False
         else Some username = adm_username \<and> Some password = adm_password)"

subsection \<open>What the module imports\<close>

text \<open>
  The module takes its request field names from \<^verbatim>\<open>dc_federated.backend._constants\<close>
  and calls into \<^verbatim>\<open>hashlib\<close>, \<^verbatim>\<open>zlib\<close>, PyNaCl and Python's \<^verbatim>\<open>str\<close>.
  None of these is part of the module: they are parameters of the model.
  \<^item> \<open>sha224_hexdigest t\<close> is \<^verbatim>\<open>hashlib.sha224(t.encode('utf-8')).hexdigest()\<close>;
  \<^item> \<open>zlib_decompress b\<close> is the outcome of \<^verbatim>\<open>zlib.decompress(b)\<close>: the bytes, or
    the exception it raises;
  \<^item> \<open>verify k m\<close> is the outcome of
    \<^verbatim>\<open>VerifyKey(k.encode(), encoder=HexEncoder).verify(m.encode(), encoder=HexEncoder)\<close>:
    the message, or the exception it raises;
  \<^item> \<open>py_str v\<close> is \<^verbatim>\<open>str(v)\<close>, as an f-string formats a value.
\<close>

record deps =
  PUBLIC_KEY_STR :: string
  SIGNED_PHRASE :: string
  WORKER_ID_KEY :: string
  ID_AND_MODEL_KEY :: string
  sha224_hexdigest :: "string \<Rightarrow> string"
  zlib_compress :: "bytes \<Rightarrow> bytes"
  zlib_decompress :: "bytes \<Rightarrow> exn + bytes"
  verify :: "string \<Rightarrow> string \<Rightarrow> exn + bytes"
  py_str :: "json \<Rightarrow> string"

text \<open>
  Modelled from the spec: the values of the constants \<^verbatim>\<open>NO_AUTHENTICATION\<close> and
  \<^verbatim>\<open>AUTHENTICATED\<close> of \<^verbatim>\<open>_constants\<close>, which is missing: the two
  authentication modes, open and key-restricted, distinct from each other.
\<close>

datatype auth_type = NO_AUTHENTICATION | AUTHENTICATED

text \<open>
  Modelled from the spec: the constants \<^verbatim>\<open>INVALID_WORKER\<close> and
  \<^verbatim>\<open>UNREGISTERED_WORKER\<close> of \<^verbatim>\<open>_constants\<close>, which is missing, are sentinel
  values, distinct from every other result. They are two constructors of the type
  of the values a method returns, so that a result tells which \<^verbatim>\<open>return\<close>
  statement produced it. The other constructors are a string (\<open>Str\<close>), a byte
  string (\<open>Bytes\<close>), the text \<^verbatim>\<open>str(e)\<close> of a caught exception (\<open>Str_of\<close>), the
  text \<^verbatim>\<open>json.dumps({...})\<close> of a dictionary, given by its items (\<open>Json_dumps\<close>),
  and \<^verbatim>\<open>None\<close> (\<open>NoneValue\<close>) for a method that ends without a \<^verbatim>\<open>return\<close>.
\<close>

datatype reply =
    INVALID_WORKER
  | UNREGISTERED_WORKER
  | Str string
  | Bytes bytes
  | Str_of exn
  | Json_dumps "(string \<times> json) list"
  | NoneValue

subsection \<open>The authenticator\<close>

text \<open>
  \<^verbatim>\<open>WorkerAuthenticator\<close>. The dictionary \<^verbatim>\<open>self.keys\<close> maps each line \<open>k\<close> of
  the key file to the verify key made from \<open>k\<close>, so it is given by its set of keys.
  \<^verbatim>\<open>__init__\<close> takes the lines of the key file, or \<^verbatim>\<open>None\<close> when there is no
  such file (then \<^verbatim>\<open>self.keys\<close> is never set; it is empty here). A line
  that is not a key makes the constructor raise: there is no server then.
\<close>

record WorkerAuthenticator =
  authenticate :: bool
  keys :: "string set"

definition WorkerAuthenticator_init :: "string list option \<Rightarrow> WorkerAuthenticator" where
  "WorkerAuthenticator_init key_list_file =
     (case key_list_file of
        None \<Rightarrow> \<lparr>authenticate = False, keys = {}\<rparr>
      | Some lines \<Rightarrow> \<lparr>authenticate = True, keys = set lines\<rparr>)"

text \<open>
  \<^verbatim>\<open>WorkerAuthenticator.authenticate_worker\<close>. The two arguments come from the
  request body, so they are JSON values. The \<^verbatim>\<open>try\<close> block has one handler,
  \<^verbatim>\<open>except BadSignatureError\<close>: any other exception raised inside leaves the method.
  Inside the block, \<^verbatim>\<open>public_key_str not in self.keys\<close> raises \<^verbatim>\<open>TypeError\<close> on
  an unhashable value, and \<^verbatim>\<open>signed_message.encode()\<close> raises
  \<^verbatim>\<open>AttributeError\<close> on a value that is not a string.
\<close>

definition authenticate_worker ::
  "deps \<Rightarrow> WorkerAuthenticator \<Rightarrow> json \<Rightarrow> json \<Rightarrow> exn + bool \<times> auth_type" where
  "authenticate_worker d self public_key_str signed_message =
     (if \<not> authenticate self then Inr (True, NO_AUTHENTICATION)
      else if \<not> hashable public_key_str then Inl TypeError
      else case public_key_str of
        JStr k \<Rightarrow>
          if k \<notin> keys self then Inr (False, AUTHENTICATED)
          else (case signed_message of
                  JStr m \<Rightarrow>
                    (case verify d k m of
                       Inl e \<Rightarrow> if e = BadSignatureError then Inr (False, AUTHENTICATED) else Inl e
                     | Inr message \<Rightarrow> Inr (True, AUTHENTICATED))
                | _ \<Rightarrow> Inl AttributeError)
      | _ \<Rightarrow> Inr (False, AUTHENTICATED))"

subsection \<open>The server object\<close>

text \<open>
  The five callbacks given to the constructor belong to the application. A callback
  returns a value or raises an exception; \<open>None\<close> for the two registration callbacks
  means a normal return (their value is not used). Every function below takes the
  callbacks as an argument, so two calls in a row may meet callbacks that behave
  differently.
\<close>

record callbacks =
  register_worker_callback :: "string \<Rightarrow> exn option"
  unregister_worker_callback :: "string \<Rightarrow> exn option"
  return_global_model_callback :: "exn + bytes"
  query_global_model_status_callback :: "exn + string"
  receive_worker_update_callback :: "string \<Rightarrow> bytes \<Rightarrow> exn + string"

text \<open>An invocation of a callback, with its arguments.\<close>

datatype call =
    Call_register_worker_callback string
  | Call_unregister_worker_callback string
  | Call_return_global_model_callback
  | Call_query_global_model_status_callback
  | Call_receive_worker_update_callback string bytes

text \<open>
  The fields of \<^verbatim>\<open>DCFServer\<close> that its methods read or write: the authenticator,
  the list \<^verbatim>\<open>worker_list\<close> of known workers and the set \<^verbatim>\<open>active_workers\<close>.
  The field \<open>calls\<close> is not a field of the class: it records the callback
  invocations made so far, oldest first.
\<close>

record DCFServer =
  worker_authenticator :: WorkerAuthenticator
  worker_list :: "string list"
  active_workers :: "string set"
  calls :: "call list"

definition DCFServer_init :: "string list option \<Rightarrow> DCFServer" where
  "DCFServer_init key_list_file =
     \<lparr>worker_authenticator = WorkerAuthenticator_init key_list_file,
      worker_list = [], active_workers = {}, calls = []\<rparr>"

text \<open>
  The statement pairs
  \<^verbatim>\<open>self.active_workers.add(worker_id); self.register_worker_callback(worker_id)\<close> and
  \<^verbatim>\<open>self.active_workers.remove(worker_id); self.unregister_worker_callback(worker_id)\<close>,
  which occur in several methods. The result is the exception the callback raised, if
  any, and the server object, changed before the callback ran.
\<close>

definition add_active :: "callbacks \<Rightarrow> string \<Rightarrow> DCFServer \<Rightarrow> exn option \<times> DCFServer" where
  "add_active cb worker_id self =
     (register_worker_callback cb worker_id,
      self\<lparr>active_workers := insert worker_id (active_workers self),
           calls := calls self @ [Call_register_worker_callback worker_id]\<rparr>)"

definition remove_active :: "callbacks \<Rightarrow> string \<Rightarrow> DCFServer \<Rightarrow> exn option \<times> DCFServer" where
  "remove_active cb worker_id self =
     (unregister_worker_callback cb worker_id,
      self\<lparr>active_workers := active_workers self - {worker_id},
           calls := calls self @ [Call_unregister_worker_callback worker_id]\<rparr>)"

subsection \<open>Registration\<close>

text \<open>
  \<^verbatim>\<open>DCFServer.register_worker\<close>. \<open>now\<close> is \<^verbatim>\<open>str(time.time())\<close> as read during
  the call. \<^verbatim>\<open>worker_data[PUBLIC_KEY_STR]\<close> and \<^verbatim>\<open>worker_data[SIGNED_PHRASE]\<close> are
  evaluated first, in both modes: they raise \<^verbatim>\<open>TypeError\<close> when there is no body
  and \<^verbatim>\<open>KeyError\<close> when the field is missing. Nothing in the method catches an
  exception. In the key-restricted branch the worker id is the public key of the
  request; a value that is not a string is not in \<^verbatim>\<open>worker_list\<close>.
\<close>

definition register_worker ::
  "deps \<Rightarrow> callbacks \<Rightarrow> string \<Rightarrow> json_obj option \<Rightarrow> DCFServer \<Rightarrow> (exn + reply) \<times> DCFServer" where
  "register_worker d cb now request_json self =
     (case request_json of
        None \<Rightarrow> (Inl TypeError, self)
      | Some worker_data \<Rightarrow>
        (case worker_data (PUBLIC_KEY_STR d) of
           None \<Rightarrow> (Inl (KeyError (PUBLIC_KEY_STR d)), self)
         | Some public_key \<Rightarrow>
           (case worker_data (SIGNED_PHRASE d) of
              None \<Rightarrow> (Inl (KeyError (SIGNED_PHRASE d)), self)
            | Some signed_phrase \<Rightarrow>
              (case authenticate_worker d (worker_authenticator self) public_key signed_phrase of
                 Inl e \<Rightarrow> (Inl e, self)
               | Inr (auth_success, auth_type) \<Rightarrow>
                   if \<not> auth_success then (Inr INVALID_WORKER, self)
                   else if auth_type = NO_AUTHENTICATION then
                     (let worker_id = sha224_hexdigest d now @ ''_unauthenticated'';
                          self1 = (if worker_id \<notin> set (worker_list self)
                                   then self\<lparr>worker_list := worker_list self @ [worker_id]\<rparr>
                                   else self)
                      in case add_active cb worker_id self1 of
                           (Some e, self2) \<Rightarrow> (Inl e, self2)
                         | (None, self2) \<Rightarrow> (Inr (Str worker_id), self2))
                   else
                     (case public_key of
                        JStr worker_id \<Rightarrow>
                          if worker_id \<notin> set (worker_list self) then (Inr INVALID_WORKER, self)
                          else (case add_active cb worker_id self of
                                  (Some e, self2) \<Rightarrow> (Inl e, self2)
                                | (None, self2) \<Rightarrow> (Inr (Str worker_id), self2))
                      | _ \<Rightarrow> (Inr INVALID_WORKER, self))))))"

subsection \<open>The admin operations\<close>

text \<open>
  \<^verbatim>\<open>DCFServer.admin_add_worker\<close>. \<^verbatim>\<open>PUBLIC_KEY_STR in worker_data\<close> raises
  \<^verbatim>\<open>TypeError\<close> when there is no body.
\<close>

definition admin_add_worker ::
  "deps \<Rightarrow> callbacks \<Rightarrow> json_obj option \<Rightarrow> DCFServer \<Rightarrow> (exn + reply) \<times> DCFServer" where
  "admin_add_worker d cb request_json self =
     (case request_json of
        None \<Rightarrow> (Inl TypeError, self)
      | Some worker_data \<Rightarrow>
        (case worker_data (PUBLIC_KEY_STR d) of
           None \<Rightarrow>
             (Inr (Json_dumps [(''error'', JStr ''Public key was not not passed in input'')]), self)
         | Some (JStr worker_id) \<Rightarrow>
             if length worker_id = 0 then
               (Inr (Json_dumps [(''error'', JStr ''Public key must be a string'')]), self)
             else if worker_id \<in> set (worker_list self) then
               (Inr (Json_dumps [(''error'', JStr (''Worker '' @ worker_id @ '' already exists''))]), self)
             else
               (let self1 = self\<lparr>worker_list := worker_list self @ [worker_id]\<rparr>
                in if (case worker_data ''active'' of None \<Rightarrow> False | Some v \<Rightarrow> eq_True v) then
                     (case add_active cb worker_id self1 of
                        (Some e, self2) \<Rightarrow> (Inl e, self2)
                      | (None, self2) \<Rightarrow>
                          (Inr (Json_dumps [(''worker_id'', JStr worker_id),
                                            (''active'', JBool (worker_id \<in> active_workers self2))]),
                           self2))
                   else
                     (Inr (Json_dumps [(''worker_id'', JStr worker_id),
                                       (''active'', JBool (worker_id \<in> active_workers self1))]),
                      self1))
         | Some other \<Rightarrow>
             (Inr (Json_dumps [(''error'', JStr ''Public key must be a string'')]), self)))"

text \<open>
  \<^verbatim>\<open>DCFServer.admin_delete_worker\<close>. \<^verbatim>\<open>list.remove\<close> takes out the first
  occurrence. The method has no \<^verbatim>\<open>return\<close>.
\<close>

definition admin_delete_worker ::
  "callbacks \<Rightarrow> string \<Rightarrow> DCFServer \<Rightarrow> (exn + reply) \<times> DCFServer" where
  "admin_delete_worker cb worker_id self =
     (let self1 = (if worker_id \<in> set (worker_list self)
                   then self\<lparr>worker_list := remove1 worker_id (worker_list self)\<rparr>
                   else self)
      in if worker_id \<in> active_workers self1 then
           (case remove_active cb worker_id self1 of
              (Some e, self2) \<Rightarrow> (Inl e, self2)
            | (None, self2) \<Rightarrow> (Inr NoneValue, self2))
         else (Inr NoneValue, self1))"

text \<open>
  \<^verbatim>\<open>DCFServer.admin_set_worker_status\<close>. \<^verbatim>\<open>"active" in worker_data\<close> raises
  \<^verbatim>\<open>TypeError\<close> when there is no body.
\<close>

definition admin_set_worker_status ::
  "deps \<Rightarrow> callbacks \<Rightarrow> string \<Rightarrow> json_obj option \<Rightarrow> DCFServer \<Rightarrow> (exn + reply) \<times> DCFServer" where
  "admin_set_worker_status d cb worker_id request_json self =
     (case request_json of
        None \<Rightarrow> (Inl TypeError, self)
      | Some worker_data \<Rightarrow>
        (case worker_data ''active'' of
           None \<Rightarrow>
             (Inr (Json_dumps [(''error'', JStr ''Key 'active' is missing in payload'')]), self)
         | Some (JBool active) \<Rightarrow>
             if worker_id \<notin> set (worker_list self) then
               (Inr (Json_dumps [(''error'', JStr (''Unknown worker: '' @ worker_id))]), self)
             else
               (let prev_active = worker_id \<in> active_workers self
                in if active \<and> \<not> prev_active then
                     (case add_active cb worker_id self of
                        (Some e, self2) \<Rightarrow> (Inl e, self2)
                      | (None, self2) \<Rightarrow>
                          (Inr (Json_dumps [(''worker_id'', JStr worker_id), (''active'', JBool active)]),
                           self2))
                   else if \<not> active \<and> prev_active then
                     (case remove_active cb worker_id self of
                        (Some e, self2) \<Rightarrow> (Inl e, self2)
                      | (None, self2) \<Rightarrow>
                          (Inr (Json_dumps [(''worker_id'', JStr worker_id), (''active'', JBool active)]),
                           self2))
                   else
                     (Inr (Json_dumps [(''worker_id'', JStr worker_id), (''active'', JBool active)]),
                      self))
         | Some active \<Rightarrow>
             (Inr (Json_dumps
                    [(''error'', JStr (''Key 'active' should be a boolean: '' @ py_str d active))]),
              self)))"

subsection \<open>The relay operations\<close>

text \<open>
  The body of each of the three methods is one \<^verbatim>\<open>try\<close> block with the handler
  \<^verbatim>\<open>except Exception as e: return str(e)\<close>, so no exception leaves them.

  \<^verbatim>\<open>DCFServer.receive_worker_update\<close>. \<open>files\<close> is \<^verbatim>\<open>request.files\<close>, each
  uploaded file given by its content. The first statement of the block reads and
  decompresses the upload.
\<close>

definition receive_worker_update ::
  "deps \<Rightarrow> callbacks \<Rightarrow> string \<Rightarrow> (string \<rightharpoonup> bytes) \<Rightarrow> DCFServer \<Rightarrow> reply \<times> DCFServer" where
  "receive_worker_update d cb worker_id files self =
     (case files (ID_AND_MODEL_KEY d) of
        None \<Rightarrow> (Str_of (KeyError (ID_AND_MODEL_KEY d)), self)
      | Some content \<Rightarrow>
        (case zlib_decompress d content of
           Inl e \<Rightarrow> (Str_of e, self)
         | Inr model_update \<Rightarrow>
             if \<not> worker_id \<in> set (worker_list self) then (UNREGISTERED_WORKER, self)
             else if \<not> worker_id \<in> active_workers self then (UNREGISTERED_WORKER, self)
             else
               (let self1 = self\<lparr>calls := calls self @
                                   [Call_receive_worker_update_callback worker_id model_update]\<rparr>
                in case receive_worker_update_callback cb worker_id model_update of
                     Inl e \<Rightarrow> (Str_of e, self1)
                   | Inr result \<Rightarrow> (Str result, self1))))"

text \<open>
  \<^verbatim>\<open>DCFServer.query_global_model_status\<close>. The worker id is a value of the request
  body; one that is not a string is not in \<^verbatim>\<open>worker_list\<close>.
\<close>

definition query_global_model_status ::
  "deps \<Rightarrow> callbacks \<Rightarrow> json_obj option \<Rightarrow> DCFServer \<Rightarrow> reply \<times> DCFServer" where
  "query_global_model_status d cb request_json self =
     (case request_json of
        None \<Rightarrow> (Str_of TypeError, self)
      | Some query_request \<Rightarrow>
        (case query_request (WORKER_ID_KEY d) of
           None \<Rightarrow> (UNREGISTERED_WORKER, self)
         | Some (JStr worker_id) \<Rightarrow>
             if \<not> worker_id \<in> set (worker_list self) then (UNREGISTERED_WORKER, self)
             else if \<not> worker_id \<in> active_workers self then (UNREGISTERED_WORKER, self)
             else
               (let self1 = self\<lparr>calls := calls self @ [Call_query_global_model_status_callback]\<rparr>
                in case query_global_model_status_callback cb of
                     Inl e \<Rightarrow> (Str_of e, self1)
                   | Inr status \<Rightarrow> (Str status, self1))
         | Some other \<Rightarrow> (UNREGISTERED_WORKER, self)))"

text \<open>\<^verbatim>\<open>DCFServer.return_global_model\<close>.\<close>

definition return_global_model ::
  "deps \<Rightarrow> callbacks \<Rightarrow> json_obj option \<Rightarrow> DCFServer \<Rightarrow> reply \<times> DCFServer" where
  "return_global_model d cb request_json self =
     (case request_json of
        None \<Rightarrow> (Str_of TypeError, self)
      | Some query_request \<Rightarrow>
        (case query_request (WORKER_ID_KEY d) of
           None \<Rightarrow> (UNREGISTERED_WORKER, self)
         | Some (JStr worker_id) \<Rightarrow>
             if \<not> worker_id \<in> set (worker_list self) then (UNREGISTERED_WORKER, self)
             else if \<not> worker_id \<in> active_workers self then (UNREGISTERED_WORKER, self)
             else
               (let self1 = self\<lparr>calls := calls self @ [Call_return_global_model_callback]\<rparr>
                in case return_global_model_callback cb of
                     Inl e \<Rightarrow> (Str_of e, self1)
                   | Inr model \<Rightarrow> (Bytes (zlib_compress d model), self1))
         | Some other \<Rightarrow> (UNREGISTERED_WORKER, self)))"

subsection \<open>Sequences of requests\<close>

text \<open>
  A request to one of the routes of \<^verbatim>\<open>start_server\<close> that reach the registry:
  its route, its path argument and its body, and for a registration the clock reading.
  The admin routes are wrapped in \<^verbatim>\<open>auth_basic(self.is_admin)\<close>: an admin request
  here is one that passed that check.
\<close>

datatype request =
    Register_worker string "json_obj option"
  | Admin_add_worker "json_obj option"
  | Admin_delete_worker string
  | Admin_set_worker_status string "json_obj option"
  | Receive_worker_update string "string \<rightharpoonup> bytes"
  | Query_global_model_status "json_obj option"
  | Return_global_model "json_obj option"

fun handle :: "deps \<Rightarrow> callbacks \<Rightarrow> request \<Rightarrow> DCFServer \<Rightarrow> DCFServer" where
  "handle d cb (Register_worker now body) self = snd (register_worker d cb now body self)"
| "handle d cb (Admin_add_worker body) self = snd (admin_add_worker d cb body self)"
| "handle d cb (Admin_delete_worker worker_id) self = snd (admin_delete_worker cb worker_id self)"
| "handle d cb (Admin_set_worker_status worker_id body) self =
     snd (admin_set_worker_status d cb worker_id body self)"
| "handle d cb (Receive_worker_update worker_id files) self =
     snd (receive_worker_update d cb worker_id files self)"
| "handle d cb (Query_global_model_status body) self = snd (query_global_model_status d cb body self)"
| "handle d cb (Return_global_model body) self = snd (return_global_model d cb body self)"

text \<open>
  The server after a sequence of requests, handled one after the other, each with
  the behaviour the callbacks have at that moment. A request whose handler raises
  leaves the server as it was when the exception left the handler.
\<close>

fun serve :: "deps \<Rightarrow> (callbacks \<times> request) list \<Rightarrow> DCFServer \<Rightarrow> DCFServer" where
  "serve d [] self = self"
| "serve d ((cb, r) # rs) self = serve d rs (handle d cb r self)"

subsection \<open>Predicates on servers and replies\<close>

text \<open>
  The invariant of the registry: no worker is listed twice, and every active worker
  is listed.
\<close>

definition registry_inv :: "DCFServer \<Rightarrow> bool" where
  "registry_inv self \<longleftrightarrow>
     distinct (worker_list self) \<and> active_workers self \<subseteq> set (worker_list self)"

text \<open>
  The callback invocations made between two moments of a server, and the number of
  invocations among them that are equal to a given one.
\<close>

definition calls_since :: "DCFServer \<Rightarrow> DCFServer \<Rightarrow> call list" where
  "calls_since before after = drop (length (calls before)) (calls after)"

definition times_called :: "call \<Rightarrow> DCFServer \<Rightarrow> DCFServer \<Rightarrow> nat" where
  "times_called c before after = count_list (calls_since before after) c"

text \<open>
  A structured error payload is the text of a dictionary with the one key
  \<^verbatim>\<open>"error"\<close> and a message, as the admin operations build it.
\<close>

fun is_error_payload :: "reply \<Rightarrow> bool" where
  "is_error_payload (Json_dumps [(k, JStr message)]) = (k = ''error'')"
| "is_error_payload r = False"

subsection \<open>An instance of the parameters\<close>

text \<open>
  To run the functions above on concrete requests, the parameters need values. The
  field names are arbitrary. The library functions are small functions of the same
  types: the digest returns its argument; the compressor puts the two header bytes
  of a zlib stream before the data, and the decompressor takes them off and raises
  \<^verbatim>\<open>zlib.error\<close> on an input that does not start with them (as \<^verbatim>\<open>zlib.decompress\<close>
  does on the empty byte string); verification raises \<^verbatim>\<open>binascii.Error\<close> on a
  signed message that is not an even number of hexadecimal digits (as the hex
  decoder does), returns on a signed message equal to the key, and raises
  \<^verbatim>\<open>BadSignatureError\<close> on any other. The callbacks return normally.
\<close>

definition example_decompress :: "bytes \<Rightarrow> exn + bytes" where
  "example_decompress b =
     (case b of
        h1 # h2 # payload \<Rightarrow>
          if h1 = 0x78 \<and> h2 = 0x9C then Inr payload else Inl (Error ''zlib.error'')
      | _ \<Rightarrow> Inl (Error ''zlib.error''))"

definition example_verify :: "string \<Rightarrow> string \<Rightarrow> exn + bytes" where
  "example_verify k m =
     (if odd (length m) \<or> \<not> list_all (\<lambda>c. c \<in> set ''0123456789abcdefABCDEF'') m
      then Inl (Error ''binascii.Error'')
      else if m = k then Inr [] else Inl BadSignatureError)"

definition example_deps :: deps where
  "example_deps =
     \<lparr>PUBLIC_KEY_STR = ''public_key_str'', SIGNED_PHRASE = ''signed_phrase'',
      WORKER_ID_KEY = ''worker_id'', ID_AND_MODEL_KEY = ''id_and_model'',
      sha224_hexdigest = (\<lambda>t. t),
      zlib_compress = (\<lambda>b. 0x78 # 0x9C # b),
      zlib_decompress = example_decompress,
      verify = example_verify,
      py_str = (\<lambda>v. ''?'')\<rparr>"

definition example_callbacks :: callbacks where
  "example_callbacks =
     \<lparr>register_worker_callback = (\<lambda>worker_id. None),
      unregister_worker_callback = (\<lambda>worker_id. None),
      return_global_model_callback = Inr [1, 2, 3],
      query_global_model_status_callback = Inr ''ready'',
      receive_worker_update_callback = (\<lambda>worker_id model_update. Inr ''Worker update received'')\<rparr>"

text \<open>
  Two servers in open mode: the server after the admin added the worker \<open>k1\<close> to the
  empty registry as an active worker, and the server after the admin added it
  without making it active. The body of a registration that carries both fields.
\<close>

definition k1_active :: DCFServer where
  "k1_active =
     serve example_deps
       [(example_callbacks,
         Admin_add_worker (Some [''public_key_str'' \<mapsto> JStr ''k1'', ''active'' \<mapsto> JBool True]))]
       (DCFServer_init None)"

definition k1_inactive :: DCFServer where
  "k1_inactive =
     serve example_deps
       [(example_callbacks, Admin_add_worker (Some [''public_key_str'' \<mapsto> JStr ''k1'']))]
       (DCFServer_init None)"

definition example_registration :: json_obj where
  "example_registration = [''public_key_str'' \<mapsto> JStr ''k'', ''signed_phrase'' \<mapsto> JStr ''00'']"

section \<open>Properties\<close>

subsection \<open>The admin gate\<close>

text \<open>
  Claim C5. The admin gate returns true only when the supplied username equals the
  configured admin username and the supplied password equals the configured admin
  password (and it does return true then); if either configured credential is absent
  from the environment, it returns false for every supplied username and password.
\<close>

theorem is_admin_exact_match:
  "(is_admin environ username password \<longrightarrow>
      environ ''ADMIN_USERNAME'' = Some username \<and> environ ''ADMIN_PASSWORD'' = Some password)
   \<and> (environ ''ADMIN_USERNAME'' = Some username \<and> environ ''ADMIN_PASSWORD'' = Some password \<longrightarrow>
      is_admin environ username password)
   \<and> (environ ''ADMIN_USERNAME'' = None \<or> environ ''ADMIN_PASSWORD'' = None \<longrightarrow>
      \<not> is_admin environ username password)"
  by (auto simp: is_admin_def Let_def)

theorem is_admin_exact_match_witness:
  "is_admin [''ADMIN_USERNAME'' \<mapsto> ''root'', ''ADMIN_PASSWORD'' \<mapsto> ''s3cret''] ''root'' ''s3cret''
   \<and> \<not> is_admin [''ADMIN_USERNAME'' \<mapsto> ''root''] ''root'' ''s3cret''"
proof -
  let ?both = "[''ADMIN_USERNAME'' \<mapsto> ''root'', ''ADMIN_PASSWORD'' \<mapsto> ''s3cret'']"
  let ?one = "[''ADMIN_USERNAME'' \<mapsto> ''root'']"
  have configured:
    "?both ''ADMIN_USERNAME'' = Some ''root'' \<and> ?both ''ADMIN_PASSWORD'' = Some ''s3cret''"
    by simp
  have absent: "?one ''ADMIN_USERNAME'' = None \<or> ?one ''ADMIN_PASSWORD'' = None"
    by simp
  from configured absent show ?thesis
    using is_admin_exact_match [of ?both "''root''" "''s3cret''"]
          is_admin_exact_match [of ?one "''root''" "''s3cret''"]
    by blast
qed

subsection \<open>The invariant of the registry\<close>

lemma registry_inv_init: "registry_inv (DCFServer_init key_list_file)"
  by (simp add: registry_inv_def DCFServer_init_def)

lemma registry_inv_register_worker:
  "registry_inv self \<Longrightarrow> registry_inv (snd (register_worker d cb now body self))"
  by (auto simp: register_worker_def add_active_def registry_inv_def Let_def
           split: option.splits sum.splits json.splits)

lemma registry_inv_admin_add_worker:
  "registry_inv self \<Longrightarrow> registry_inv (snd (admin_add_worker d cb body self))"
  by (auto simp: admin_add_worker_def add_active_def registry_inv_def Let_def
           split: option.splits json.splits)

lemma registry_inv_admin_delete_worker:
  "registry_inv self \<Longrightarrow> registry_inv (snd (admin_delete_worker cb worker_id self))"
  by (auto simp: admin_delete_worker_def remove_active_def registry_inv_def Let_def
           split: option.splits)

lemma registry_inv_admin_set_worker_status:
  "registry_inv self \<Longrightarrow> registry_inv (snd (admin_set_worker_status d cb worker_id body self))"
  by (auto simp: admin_set_worker_status_def add_active_def remove_active_def registry_inv_def
                 Let_def
           split: option.splits json.splits)

lemma receive_worker_update_registry [simp]:
  "worker_list (snd (receive_worker_update d cb worker_id files self)) = worker_list self"
  "active_workers (snd (receive_worker_update d cb worker_id files self)) = active_workers self"
  by (auto simp: receive_worker_update_def Let_def split: option.splits sum.splits)

lemma query_global_model_status_registry [simp]:
  "worker_list (snd (query_global_model_status d cb body self)) = worker_list self"
  "active_workers (snd (query_global_model_status d cb body self)) = active_workers self"
  by (auto simp: query_global_model_status_def Let_def split: option.splits sum.splits json.splits)

lemma return_global_model_registry [simp]:
  "worker_list (snd (return_global_model d cb body self)) = worker_list self"
  "active_workers (snd (return_global_model d cb body self)) = active_workers self"
  by (auto simp: return_global_model_def Let_def split: option.splits sum.splits json.splits)

lemma registry_inv_handle:
  "registry_inv self \<Longrightarrow> registry_inv (handle d cb r self)"
proof (cases r)
  case (Register_worker now body)
  assume "registry_inv self"
  then show ?thesis unfolding Register_worker handle.simps by (rule registry_inv_register_worker)
next
  case (Admin_add_worker body)
  assume "registry_inv self"
  then show ?thesis unfolding Admin_add_worker handle.simps by (rule registry_inv_admin_add_worker)
next
  case (Admin_delete_worker w)
  assume "registry_inv self"
  then show ?thesis unfolding Admin_delete_worker handle.simps by (rule registry_inv_admin_delete_worker)
next
  case (Admin_set_worker_status w body)
  assume "registry_inv self"
  then show ?thesis unfolding Admin_set_worker_status handle.simps
    by (rule registry_inv_admin_set_worker_status)
next
  case (Receive_worker_update w files)
  assume "registry_inv self"
  then show ?thesis unfolding Receive_worker_update by (simp add: registry_inv_def)
next
  case (Query_global_model_status body)
  assume "registry_inv self"
  then show ?thesis unfolding Query_global_model_status by (simp add: registry_inv_def)
next
  case (Return_global_model body)
  assume "registry_inv self"
  then show ?thesis unfolding Return_global_model by (simp add: registry_inv_def)
qed

lemma registry_inv_serve:
  "registry_inv self \<Longrightarrow> registry_inv (serve d rs self)"
proof (induction rs arbitrary: self)
  case Nil
  then show ?case by simp
next
  case (Cons x rs)
  obtain cb r where x: "x = (cb, r)" by (cases x)
  from Cons.prems have "registry_inv (handle d cb r self)" by (rule registry_inv_handle)
  then have "registry_inv (serve d rs (handle d cb r self))" by (rule Cons.IH)
  then show ?case by (simp add: x)
qed

subsection \<open>The example servers\<close>

lemma k1_active_eq:
  "k1_active =
     \<lparr>worker_authenticator = \<lparr>authenticate = False, keys = {}\<rparr>, worker_list = [''k1''],
      active_workers = {''k1''}, calls = [Call_register_worker_callback ''k1'']\<rparr>"
  by (simp add: k1_active_def example_deps_def example_callbacks_def DCFServer_init_def
        WorkerAuthenticator_init_def admin_add_worker_def add_active_def Let_def)

lemma k1_inactive_eq:
  "k1_inactive =
     \<lparr>worker_authenticator = \<lparr>authenticate = False, keys = {}\<rparr>, worker_list = [''k1''],
      active_workers = {}, calls = []\<rparr>"
  by (simp add: k1_inactive_def example_deps_def example_callbacks_def DCFServer_init_def
        WorkerAuthenticator_init_def admin_add_worker_def Let_def)

lemma example_deps_simps:
  "PUBLIC_KEY_STR example_deps = ''public_key_str''"
  "SIGNED_PHRASE example_deps = ''signed_phrase''"
  "WORKER_ID_KEY example_deps = ''worker_id''"
  "ID_AND_MODEL_KEY example_deps = ''id_and_model''"
  "sha224_hexdigest example_deps t = t"
  "zlib_decompress example_deps = example_decompress"
  "verify example_deps = example_verify"
  by (simp_all add: example_deps_def)

subsection \<open>Active workers are known\<close>

text \<open>
  Claim C1. After every sequence of requests handled by a server that started with
  the empty registry (registrations, admin additions, removals and status changes,
  and relay requests between them), every member of the active set is a member of
  the known set. The sequence is arbitrary, so this holds after each of its requests.
\<close>

theorem active_subset_known:
  "i \<in> active_workers (serve d rs (DCFServer_init key_list_file)) \<Longrightarrow>
   i \<in> set (worker_list (serve d rs (DCFServer_init key_list_file)))"
  using registry_inv_serve [OF registry_inv_init, of d rs key_list_file]
  by (auto simp: registry_inv_def)

theorem active_subset_known_witness:
  "''k1'' \<in> active_workers k1_active \<and> ''k1'' \<in> set (worker_list k1_active)"
proof -
  have "''k1'' \<in> active_workers k1_active"
    by (simp add: k1_active_eq)
  then have active: "''k1'' \<in> active_workers
      (serve example_deps
        [(example_callbacks,
          Admin_add_worker (Some [''public_key_str'' \<mapsto> JStr ''k1'', ''active'' \<mapsto> JBool True]))]
        (DCFServer_init None))"
    unfolding k1_active_def .
  from active active_subset_known [OF active] show ?thesis
    unfolding k1_active_def by (rule conjI)
qed

subsection \<open>Removal by the admin\<close>

lemma admin_delete_worker_effect_inv:
  assumes "registry_inv self"
  shows "worker_list (snd (admin_delete_worker cb i self)) = remove1 i (worker_list self)"
    and "i \<notin> set (worker_list (snd (admin_delete_worker cb i self)))"
    and "active_workers (snd (admin_delete_worker cb i self)) = active_workers self - {i}"
    and "i \<notin> set (worker_list self) \<Longrightarrow> admin_delete_worker cb i self = (Inr NoneValue, self)"
    and "i \<in> active_workers self \<Longrightarrow>
           calls (snd (admin_delete_worker cb i self)) = calls self @ [Call_unregister_worker_callback i]"
    and "i \<notin> active_workers self \<Longrightarrow>
           calls (snd (admin_delete_worker cb i self)) = calls self \<and>
           fst (admin_delete_worker cb i self) = Inr NoneValue"
  using assms
  by (auto simp: admin_delete_worker_def remove_active_def registry_inv_def Let_def remove1_idem
           split: option.splits)

text \<open>
  Claim C7. In every server reached from the empty registry, \<^verbatim>\<open>admin_delete_worker\<close>
  leaves the identity out of the known list, whether it was there or not, and out of
  the active set. When the identity is not known, the method returns normally and
  the server is as before. When the identity was active, the method invokes the
  on-worker-left callback, once, and no other callback; when it was not active, it
  invokes no callback and returns normally.
\<close>

theorem admin_delete_worker_effect:
  assumes "self = serve d rs (DCFServer_init key_list_file)"
  shows "i \<notin> set (worker_list (snd (admin_delete_worker cb i self)))
     \<and> worker_list (snd (admin_delete_worker cb i self)) = remove1 i (worker_list self)
     \<and> active_workers (snd (admin_delete_worker cb i self)) = active_workers self - {i}
     \<and> (i \<notin> set (worker_list self) \<longrightarrow> admin_delete_worker cb i self = (Inr NoneValue, self))
     \<and> (i \<in> active_workers self \<longrightarrow>
          calls_since self (snd (admin_delete_worker cb i self)) = [Call_unregister_worker_callback i]
          \<and> times_called (Call_unregister_worker_callback i) self (snd (admin_delete_worker cb i self)) = 1)
     \<and> (i \<notin> active_workers self \<longrightarrow>
          calls_since self (snd (admin_delete_worker cb i self)) = []
          \<and> fst (admin_delete_worker cb i self) = Inr NoneValue)"
proof -
  have inv: "registry_inv self"
    unfolding assms by (rule registry_inv_serve [OF registry_inv_init])
  show ?thesis
    using admin_delete_worker_effect_inv [OF inv, where cb = cb and i = i]
    by (simp add: calls_since_def times_called_def)
qed

theorem admin_delete_worker_effect_witness:
  "''k1'' \<in> active_workers k1_active
   \<and> ''k1'' \<notin> set (worker_list (snd (admin_delete_worker example_callbacks ''k1'' k1_active)))
   \<and> ''k1'' \<notin> active_workers (snd (admin_delete_worker example_callbacks ''k1'' k1_active))
   \<and> times_called (Call_unregister_worker_callback ''k1'') k1_active
        (snd (admin_delete_worker example_callbacks ''k1'' k1_active)) = 1
   \<and> ''k2'' \<notin> set (worker_list k1_active)
   \<and> admin_delete_worker example_callbacks ''k2'' k1_active = (Inr NoneValue, k1_active)"
proof -
  have active: "''k1'' \<in> active_workers k1_active"
    by (simp add: k1_active_eq)
  have absent: "''k2'' \<notin> set (worker_list k1_active)"
    by (simp add: k1_active_eq)
  from active absent
    admin_delete_worker_effect [OF k1_active_def, of "''k1''" example_callbacks]
    admin_delete_worker_effect [OF k1_active_def, of "''k2''" example_callbacks]
  show ?thesis by blast
qed

subsection \<open>Setting the status twice\<close>

text \<open>
  Claim C8 says that for every known identity two calls in a row of
  \<^verbatim>\<open>admin_set_worker_status\<close> with \<^verbatim>\<open>active\<close> true invoke the on-worker-joined
  callback exactly once. For an identity that is already active they invoke it not at
  all: here \<open>k1\<close> was added as an active worker, and neither of the two calls that
  follow invokes the callback.
\<close>

theorem admin_set_worker_status_twice_counterexample:
  "''k1'' \<in> set (worker_list k1_active)
   \<and> times_called (Call_register_worker_callback ''k1'') k1_active
        (serve example_deps
           [(example_callbacks, Admin_set_worker_status ''k1'' (Some [''active'' \<mapsto> JBool True])),
            (example_callbacks, Admin_set_worker_status ''k1'' (Some [''active'' \<mapsto> JBool True]))]
           k1_active) = 0"
  by (simp add: k1_active_eq admin_set_worker_status_def times_called_def calls_since_def)

text \<open>
  Claim C8, amended. For every known identity that is not active, two calls in a row
  of \<^verbatim>\<open>admin_set_worker_status\<close> with \<^verbatim>\<open>active\<close> true invoke the on-worker-joined
  callback exactly once, and no other callback, whatever the first invocation does.
  For every known identity, a call that asks for the status the identity has already
  invokes no callback, leaves the server as it is and returns the usual payload, not
  an error.
\<close>

theorem admin_set_worker_status_twice:
  assumes "i \<in> set (worker_list self)"
    and "body ''active'' = Some (JBool True)" and "body' ''active'' = Some (JBool True)"
    and "noop ''active'' = Some (JBool (i \<in> active_workers self))"
  shows "(i \<notin> active_workers self \<longrightarrow>
           times_called (Call_register_worker_callback i) self
             (serve d [(cb, Admin_set_worker_status i (Some body)),
                       (cb', Admin_set_worker_status i (Some body'))] self) = 1
           \<and> calls_since self
             (serve d [(cb, Admin_set_worker_status i (Some body)),
                       (cb', Admin_set_worker_status i (Some body'))] self)
             = [Call_register_worker_callback i])
     \<and> admin_set_worker_status d cb i (Some noop) self =
         (Inr (Json_dumps [(''worker_id'', JStr i), (''active'', JBool (i \<in> active_workers self))]),
          self)"
  using assms
  by (auto simp: admin_set_worker_status_def add_active_def remove_active_def Let_def
        times_called_def calls_since_def split: option.splits)

theorem admin_set_worker_status_twice_witness:
  "''k1'' \<in> set (worker_list k1_inactive) \<and> ''k1'' \<notin> active_workers k1_inactive
   \<and> times_called (Call_register_worker_callback ''k1'') k1_inactive
        (serve example_deps
           [(example_callbacks, Admin_set_worker_status ''k1'' (Some [''active'' \<mapsto> JBool True])),
            (example_callbacks, Admin_set_worker_status ''k1'' (Some [''active'' \<mapsto> JBool True]))]
           k1_inactive) = 1
   \<and> admin_set_worker_status example_deps example_callbacks ''k1''
        (Some [''active'' \<mapsto> JBool False]) k1_inactive
      = (Inr (Json_dumps [(''worker_id'', JStr ''k1''), (''active'', JBool False)]), k1_inactive)"
proof -
  have known: "''k1'' \<in> set (worker_list k1_inactive)"
    by (simp add: k1_inactive_eq)
  have inactive: "''k1'' \<notin> active_workers k1_inactive"
    by (simp add: k1_inactive_eq)
  have on: "[''active'' \<mapsto> JBool True] ''active'' = Some (JBool True)"
    by simp
  have off: "[''active'' \<mapsto> JBool False] ''active'' = Some (JBool (''k1'' \<in> active_workers k1_inactive))"
    using inactive by simp
  from known inactive on off
    admin_set_worker_status_twice [where i = "''k1''" and self = k1_inactive and d = example_deps
      and cb = example_callbacks and cb' = example_callbacks
      and body = "[''active'' \<mapsto> JBool True]" and body' = "[''active'' \<mapsto> JBool True]"
      and noop = "[''active'' \<mapsto> JBool False]"]
  show ?thesis by simp
qed

subsection \<open>Relay requests of inactive workers\<close>

text \<open>
  Claim C2 says that each relay operation returns the sentinel
  \<^verbatim>\<open>UNREGISTERED_WORKER\<close> for an identity that is known and not active.
  \<^verbatim>\<open>receive_worker_update\<close> decompresses the upload before it looks at the
  identity: for the known, inactive worker \<open>k1\<close> and the empty upload, on which
  \<^verbatim>\<open>zlib.decompress\<close> raises, it returns the text of that exception.
\<close>

theorem relay_inactive_counterexample:
  "''k1'' \<in> set (worker_list k1_inactive) \<and> ''k1'' \<notin> active_workers k1_inactive
   \<and> receive_worker_update example_deps example_callbacks ''k1'' [''id_and_model'' \<mapsto> []] k1_inactive
      = (Str_of (Error ''zlib.error''), k1_inactive)
   \<and> Str_of (Error ''zlib.error'') \<noteq> UNREGISTERED_WORKER"
  by (simp add: k1_inactive_eq example_deps_simps example_decompress_def receive_worker_update_def)

text \<open>
  Claim C2, amended. For every identity that is known and not active,
  \<^verbatim>\<open>query_global_model_status\<close> and \<^verbatim>\<open>return_global_model\<close> return the
  sentinel \<^verbatim>\<open>UNREGISTERED_WORKER\<close>; \<^verbatim>\<open>receive_worker_update\<close> returns the
  sentinel when the upload decompresses, and the text of the decompression error when
  it does not. None of the three invokes a callback or changes the server.
\<close>

theorem relay_inactive_worker:
  assumes "i \<in> set (worker_list self)" and "i \<notin> active_workers self"
  shows "(body (WORKER_ID_KEY d) = Some (JStr i) \<longrightarrow>
            query_global_model_status d cb (Some body) self = (UNREGISTERED_WORKER, self)
            \<and> return_global_model d cb (Some body) self = (UNREGISTERED_WORKER, self))
         \<and> (files (ID_AND_MODEL_KEY d) = Some content \<longrightarrow>
            receive_worker_update d cb i files self =
              (case zlib_decompress d content of
                 Inl e \<Rightarrow> Str_of e
               | Inr model_update \<Rightarrow> UNREGISTERED_WORKER, self))
         \<and> snd (receive_worker_update d cb i files self) = self"
  using assms
  by (auto simp: query_global_model_status_def return_global_model_def receive_worker_update_def
           split: option.splits sum.splits)

theorem relay_inactive_worker_witness:
  "''k1'' \<in> set (worker_list k1_inactive) \<and> ''k1'' \<notin> active_workers k1_inactive
   \<and> query_global_model_status example_deps example_callbacks
        (Some [''worker_id'' \<mapsto> JStr ''k1'']) k1_inactive = (UNREGISTERED_WORKER, k1_inactive)
   \<and> return_global_model example_deps example_callbacks
        (Some [''worker_id'' \<mapsto> JStr ''k1'']) k1_inactive = (UNREGISTERED_WORKER, k1_inactive)
   \<and> receive_worker_update example_deps example_callbacks ''k1''
        [''id_and_model'' \<mapsto> [0x78, 0x9C, 7]] k1_inactive = (UNREGISTERED_WORKER, k1_inactive)
   \<and> receive_worker_update example_deps example_callbacks ''k1''
        [''id_and_model'' \<mapsto> [1, 2, 3]] k1_inactive = (Str_of (Error ''zlib.error''), k1_inactive)"
proof -
  have known: "''k1'' \<in> set (worker_list k1_inactive)"
    by (simp add: k1_inactive_eq)
  have inactive: "''k1'' \<notin> active_workers k1_inactive"
    by (simp add: k1_inactive_eq)
  have body: "[''worker_id'' \<mapsto> JStr ''k1''] (WORKER_ID_KEY example_deps) = Some (JStr ''k1'')"
    by (simp add: example_deps_simps)
  have good: "[''id_and_model'' \<mapsto> [0x78, 0x9C, 7::8 word]] (ID_AND_MODEL_KEY example_deps)
        = Some [0x78, 0x9C, 7]"
      "zlib_decompress example_deps [0x78, 0x9C, 7] = Inr [7]"
    by (simp_all add: example_deps_simps example_decompress_def)
  have bad: "[''id_and_model'' \<mapsto> [1, 2, 3::8 word]] (ID_AND_MODEL_KEY example_deps) = Some [1, 2, 3]"
      "zlib_decompress example_deps [1, 2, 3] = Inl (Error ''zlib.error'')"
    by (simp_all add: example_deps_simps example_decompress_def)
  from known inactive body good bad
    relay_inactive_worker [OF known inactive, where body = "[''worker_id'' \<mapsto> JStr ''k1'']"
      and d = example_deps and cb = example_callbacks
      and files = "[''id_and_model'' \<mapsto> [0x78, 0x9C, 7]]" and content = "[0x78, 0x9C, 7]"]
    relay_inactive_worker [OF known inactive, where body = "[''worker_id'' \<mapsto> JStr ''k1'']"
      and d = example_deps and cb = example_callbacks
      and files = "[''id_and_model'' \<mapsto> [1, 2, 3]]" and content = "[1, 2, 3]"]
  show ?thesis by simp
qed

subsection \<open>Decompression comes first\<close>

text \<open>
  Claim C10. In \<^verbatim>\<open>receive_worker_update\<close>, for every identity, known or not,
  active or not: an upload that fails to decompress gives the text of the
  decompression error as the result, and the server is unchanged; and when the result
  is the sentinel \<^verbatim>\<open>UNREGISTERED_WORKER\<close>, the upload was there and decompressed
  successfully.
\<close>

theorem decompression_before_membership:
  "(files (ID_AND_MODEL_KEY d) = Some content \<and> zlib_decompress d content = Inl e \<longrightarrow>
      receive_worker_update d cb i files self = (Str_of e, self))
   \<and> (fst (receive_worker_update d cb i files self) = UNREGISTERED_WORKER \<longrightarrow>
      (\<exists>content' model_update.
         files (ID_AND_MODEL_KEY d) = Some content' \<and>
         zlib_decompress d content' = Inr model_update))"
  by (auto simp: receive_worker_update_def Let_def split: option.splits sum.splits if_splits)

theorem decompression_before_membership_witness:
  "receive_worker_update example_deps example_callbacks ''nobody'' [''id_and_model'' \<mapsto> [1, 2, 3]]
      (DCFServer_init None)
     = (Str_of (Error ''zlib.error''), DCFServer_init None)
   \<and> fst (receive_worker_update example_deps example_callbacks ''nobody''
            [''id_and_model'' \<mapsto> [0x78, 0x9C, 7]] (DCFServer_init None)) = UNREGISTERED_WORKER
   \<and> (\<exists>content' model_update.
         [''id_and_model'' \<mapsto> [0x78, 0x9C, 7]] (ID_AND_MODEL_KEY example_deps) = Some content' \<and>
         zlib_decompress example_deps content' = Inr model_update)"
proof -
  have bad: "[''id_and_model'' \<mapsto> [1, 2, 3]] (ID_AND_MODEL_KEY example_deps) = Some [1, 2, 3]
      \<and> zlib_decompress example_deps [1, 2, 3] = Inl (Error ''zlib.error'')"
    by (simp add: example_deps_def example_decompress_def)
  have sentinel: "fst (receive_worker_update example_deps example_callbacks ''nobody''
            [''id_and_model'' \<mapsto> [0x78, 0x9C, 7]] (DCFServer_init None)) = UNREGISTERED_WORKER"
    by (simp add: example_deps_simps example_decompress_def DCFServer_init_def
          receive_worker_update_def)
  from bad sentinel
    decompression_before_membership [of "[''id_and_model'' \<mapsto> [1, 2, 3]]" example_deps "[1, 2, 3]"
      "Error ''zlib.error''" example_callbacks "''nobody''" "DCFServer_init None"]
    decompression_before_membership [of "[''id_and_model'' \<mapsto> [0x78, 0x9C, 7]]" example_deps _ _
      example_callbacks "''nobody''" "DCFServer_init None"]
  show ?thesis by blast
qed

subsection \<open>Requests with a missing field\<close>

text \<open>
  Claim C6 says that a request with a missing required field gets a structured error
  payload. \<^verbatim>\<open>query_global_model_status\<close> and \<^verbatim>\<open>return_global_model\<close> answer
  a body without the worker id with the sentinel \<^verbatim>\<open>UNREGISTERED_WORKER\<close>, which
  is not such a payload.
\<close>

theorem missing_field_counterexample:
  "query_global_model_status example_deps example_callbacks (Some Map.empty) (DCFServer_init None)
     = (UNREGISTERED_WORKER, DCFServer_init None)
   \<and> return_global_model example_deps example_callbacks (Some Map.empty) (DCFServer_init None)
     = (UNREGISTERED_WORKER, DCFServer_init None)
   \<and> \<not> is_error_payload UNREGISTERED_WORKER"
  by (simp add: query_global_model_status_def return_global_model_def)

text \<open>
  Claim C6, amended. A body without the worker id makes
  \<^verbatim>\<open>query_global_model_status\<close> and \<^verbatim>\<open>return_global_model\<close> return the sentinel
  \<^verbatim>\<open>UNREGISTERED_WORKER\<close>. A body without \<^verbatim>\<open>"active"\<close> makes
  \<^verbatim>\<open>admin_set_worker_status\<close>, and a body without the public key makes
  \<^verbatim>\<open>admin_add_worker\<close>, return a structured error payload that names the missing
  field. In each case the server is unchanged and no callback is invoked.
\<close>

theorem missing_field:
  "(body (WORKER_ID_KEY d) = None \<longrightarrow>
      query_global_model_status d cb (Some body) self = (UNREGISTERED_WORKER, self)
      \<and> return_global_model d cb (Some body) self = (UNREGISTERED_WORKER, self))
   \<and> (body ''active'' = None \<longrightarrow>
      admin_set_worker_status d cb i (Some body) self =
        (Inr (Json_dumps [(''error'', JStr ''Key 'active' is missing in payload'')]), self)
      \<and> (\<exists>r. fst (admin_set_worker_status d cb i (Some body) self) = Inr r \<and> is_error_payload r))
   \<and> (body (PUBLIC_KEY_STR d) = None \<longrightarrow>
      admin_add_worker d cb (Some body) self =
        (Inr (Json_dumps [(''error'', JStr ''Public key was not not passed in input'')]), self)
      \<and> (\<exists>r. fst (admin_add_worker d cb (Some body) self) = Inr r \<and> is_error_payload r))"
  by (simp add: query_global_model_status_def return_global_model_def admin_set_worker_status_def
        admin_add_worker_def)

theorem missing_field_witness:
  "query_global_model_status example_deps example_callbacks (Some [''worker'' \<mapsto> JStr ''k1''])
      (DCFServer_init None) = (UNREGISTERED_WORKER, DCFServer_init None)
   \<and> return_global_model example_deps example_callbacks (Some [''worker'' \<mapsto> JStr ''k1''])
      (DCFServer_init None) = (UNREGISTERED_WORKER, DCFServer_init None)
   \<and> admin_set_worker_status example_deps example_callbacks ''k1'' (Some [''worker'' \<mapsto> JStr ''k1''])
      (DCFServer_init None)
     = (Inr (Json_dumps [(''error'', JStr ''Key 'active' is missing in payload'')]), DCFServer_init None)
   \<and> admin_add_worker example_deps example_callbacks (Some [''worker'' \<mapsto> JStr ''k1''])
      (DCFServer_init None)
     = (Inr (Json_dumps [(''error'', JStr ''Public key was not not passed in input'')]),
        DCFServer_init None)"
proof -
  have absent: "[''worker'' \<mapsto> JStr ''k1''] (WORKER_ID_KEY example_deps) = None
      \<and> [''worker'' \<mapsto> JStr ''k1''] ''active'' = None
      \<and> [''worker'' \<mapsto> JStr ''k1''] (PUBLIC_KEY_STR example_deps) = None"
    by (simp add: example_deps_def)
  from absent missing_field [of "[''worker'' \<mapsto> JStr ''k1'']" example_deps example_callbacks
      "DCFServer_init None" "''k1''"]
  show ?thesis by blast
qed

subsection \<open>Authentication in key-restricted mode\<close>

text \<open>
  Claim C3 says that \<^verbatim>\<open>authenticate_worker\<close>, in key-restricted mode and for a
  listed key, returns \<open>(False, AUTHENTICATED)\<close> whenever verification fails and never
  lets an exception out. The method does so for \<^verbatim>\<open>BadSignatureError\<close> only: it
  returns \<open>(True, AUTHENTICATED)\<close> exactly when verification returns,
  \<open>(False, AUTHENTICATED)\<close> exactly when verification raises
  \<^verbatim>\<open>BadSignatureError\<close>, and raises every other exception of the verification
  itself.
\<close>

theorem authenticate_worker_key_restricted:
  assumes "authenticate a" and "k \<in> keys a"
  shows "authenticate_worker d a (JStr k) (JStr m) =
           (case verify d k m of
              Inr message \<Rightarrow> Inr (True, AUTHENTICATED)
            | Inl e \<Rightarrow> if e = BadSignatureError then Inr (False, AUTHENTICATED) else Inl e)"
  using assms by (simp add: authenticate_worker_def split: sum.splits)

theorem authenticate_worker_key_restricted_witness:
  "authenticate_worker example_deps (WorkerAuthenticator_init (Some [''ab12''])) (JStr ''ab12'') (JStr ''zz'')
     = Inl (Error ''binascii.Error'')
   \<and> authenticate_worker example_deps (WorkerAuthenticator_init (Some [''ab12''])) (JStr ''ab12'') (JStr ''00'')
     = Inr (False, AUTHENTICATED)
   \<and> authenticate_worker example_deps (WorkerAuthenticator_init (Some [''ab12''])) (JStr ''ab12'') (JStr ''ab12'')
     = Inr (True, AUTHENTICATED)"
proof -
  let ?a = "WorkerAuthenticator_init (Some [''ab12''])"
  have restricted: "authenticate ?a" and listed: "''ab12'' \<in> keys ?a"
    by (simp_all add: WorkerAuthenticator_init_def)
  have outcomes: "verify example_deps ''ab12'' ''zz'' = Inl (Error ''binascii.Error'')"
    "verify example_deps ''ab12'' ''00'' = Inl BadSignatureError"
    "verify example_deps ''ab12'' ''ab12'' = Inr []"
    by (simp_all add: example_deps_def example_verify_def)
  from outcomes
    authenticate_worker_key_restricted [OF restricted listed, of example_deps "''zz''"]
    authenticate_worker_key_restricted [OF restricted listed, of example_deps "''00''"]
    authenticate_worker_key_restricted [OF restricted listed, of example_deps "''ab12''"]
  show ?thesis by simp
qed

subsection \<open>Two registrations in open mode\<close>

text \<open>
  Claim C4 says that in open mode two registrations in a row return two distinct
  identities. The identity is made from the clock reading alone: two registrations
  that read the same clock value return the same identity.
\<close>

theorem register_worker_open_twice_counterexample:
  "fst (register_worker example_deps example_callbacks ''1604500000.25''
          (Some example_registration) (DCFServer_init None))
     = Inr (Str (sha224_hexdigest example_deps ''1604500000.25'' @ ''_unauthenticated''))
   \<and> fst (register_worker example_deps example_callbacks ''1604500000.25''
          (Some example_registration)
          (snd (register_worker example_deps example_callbacks ''1604500000.25''
                 (Some example_registration) (DCFServer_init None))))
     = Inr (Str (sha224_hexdigest example_deps ''1604500000.25'' @ ''_unauthenticated''))"
  by (simp add: example_deps_simps example_callbacks_def example_registration_def DCFServer_init_def
        WorkerAuthenticator_init_def register_worker_def authenticate_worker_def add_active_def
        Let_def)

lemma register_worker_open:
  assumes "\<not> authenticate (worker_authenticator self)"
    and "body (PUBLIC_KEY_STR d) = Some public_key" and "body (SIGNED_PHRASE d) = Some signed_phrase"
    and "register_worker_callback cb (sha224_hexdigest d now @ ''_unauthenticated'') = None"
  shows "fst (register_worker d cb now (Some body) self) =
           Inr (Str (sha224_hexdigest d now @ ''_unauthenticated''))"
    and "worker_authenticator (snd (register_worker d cb now (Some body) self)) =
           worker_authenticator self"
  using assms
  by (simp_all add: register_worker_def authenticate_worker_def add_active_def Let_def)

text \<open>
  Claim C4, amended. In open mode, for every server, two registrations in a row whose
  bodies carry the public key and the signed phrase, and whose on-worker-joined
  callback returns normally, return the digests of their clock readings, each
  followed by \<^verbatim>\<open>_unauthenticated\<close>; the two identities are distinct exactly when
  the two digests are.
\<close>

theorem register_worker_open_twice:
  assumes "\<not> authenticate (worker_authenticator self)"
    and "body (PUBLIC_KEY_STR d) = Some public_key" and "body (SIGNED_PHRASE d) = Some signed_phrase"
    and "body' (PUBLIC_KEY_STR d) = Some public_key'" and "body' (SIGNED_PHRASE d) = Some signed_phrase'"
    and "register_worker_callback cb (sha224_hexdigest d now @ ''_unauthenticated'') = None"
    and "register_worker_callback cb' (sha224_hexdigest d now' @ ''_unauthenticated'') = None"
  shows "fst (register_worker d cb now (Some body) self) =
           Inr (Str (sha224_hexdigest d now @ ''_unauthenticated''))
     \<and> fst (register_worker d cb' now' (Some body') (snd (register_worker d cb now (Some body) self))) =
           Inr (Str (sha224_hexdigest d now' @ ''_unauthenticated''))
     \<and> (fst (register_worker d cb now (Some body) self) \<noteq>
         fst (register_worker d cb' now' (Some body') (snd (register_worker d cb now (Some body) self)))
        \<longleftrightarrow> sha224_hexdigest d now \<noteq> sha224_hexdigest d now')"
proof -
  let ?self1 = "snd (register_worker d cb now (Some body) self)"
  have first: "fst (register_worker d cb now (Some body) self) =
      Inr (Str (sha224_hexdigest d now @ ''_unauthenticated''))"
    using assms(1,2,3,6) by (rule register_worker_open(1))
  have "worker_authenticator ?self1 = worker_authenticator self"
    using assms(1,2,3,6) by (rule register_worker_open(2))
  with assms(1) have "\<not> authenticate (worker_authenticator ?self1)" by simp
  then have second: "fst (register_worker d cb' now' (Some body') ?self1) =
      Inr (Str (sha224_hexdigest d now' @ ''_unauthenticated''))"
    using assms(4,5,7) by (rule register_worker_open(1))
  show ?thesis unfolding first second by simp
qed

theorem register_worker_open_twice_witness:
  "fst (register_worker example_deps example_callbacks ''1604500000.25''
          (Some example_registration) (DCFServer_init None))
     = Inr (Str (sha224_hexdigest example_deps ''1604500000.25'' @ ''_unauthenticated''))
   \<and> fst (register_worker example_deps example_callbacks ''1604500000.5''
          (Some example_registration)
          (snd (register_worker example_deps example_callbacks ''1604500000.25''
                 (Some example_registration) (DCFServer_init None))))
     = Inr (Str (sha224_hexdigest example_deps ''1604500000.5'' @ ''_unauthenticated''))
   \<and> sha224_hexdigest example_deps ''1604500000.25'' \<noteq> sha224_hexdigest example_deps ''1604500000.5''
   \<and> fst (register_worker example_deps example_callbacks ''1604500000.25''
          (Some example_registration) (DCFServer_init None))
     \<noteq> fst (register_worker example_deps example_callbacks ''1604500000.5''
          (Some example_registration)
          (snd (register_worker example_deps example_callbacks ''1604500000.25''
                 (Some example_registration) (DCFServer_init None))))"
proof -
  have open_mode: "\<not> authenticate (worker_authenticator (DCFServer_init None))"
    by (simp add: DCFServer_init_def WorkerAuthenticator_init_def)
  have fields: "example_registration (PUBLIC_KEY_STR example_deps) = Some (JStr ''k'')"
    "example_registration (SIGNED_PHRASE example_deps) = Some (JStr ''00'')"
    by (simp_all add: example_deps_simps example_registration_def)
  have returns: "register_worker_callback example_callbacks w = None" for w
    by (simp add: example_callbacks_def)
  have digests: "sha224_hexdigest example_deps ''1604500000.25'' \<noteq> sha224_hexdigest example_deps ''1604500000.5''"
    by (simp add: example_deps_simps)
  note twice = register_worker_open_twice [OF open_mode fields fields returns returns,
      of "''1604500000.25''" "''1604500000.5''"]
  from twice digests show ?thesis by simp
qed

end
